theory Spec2Isabelle
  imports Main
begin

section \<open>JavaScript values and objects\<close>

text \<open>
  The values that travel through the form components of \<^verbatim>\<open>app/ui/form.tsx\<close>:
  \<^verbatim>\<open>undefined\<close>, \<^verbatim>\<open>null\<close>, booleans, strings, integer-valued numbers, and
  references to objects (elements, handlers, style objects), of which only the identity
  is kept.
\<close>

datatype jsval =
    JUndefined
  | JNull
  | JBool bool
  | JStr string
  | JNum int
  | JObj nat

text \<open>
  A props object maps property names to values. A key may be present with the value
  \<^verbatim>\<open>undefined\<close>; reading an absent key gives \<^verbatim>\<open>undefined\<close> too.
\<close>

type_synonym obj = "string \<rightharpoonup> jsval"

definition get_prop :: "obj \<Rightarrow> string \<Rightarrow> jsval" where
  "get_prop ob k = (case ob k of None \<Rightarrow> JUndefined | Some v \<Rightarrow> v)"

text \<open>Truthiness, as \<^verbatim>\<open>if (v)\<close>, \<^verbatim>\<open>!v\<close>, \<^verbatim>\<open>a && b\<close> and \<^verbatim>\<open>a || b\<close> test it.\<close>

fun truthy :: "jsval \<Rightarrow> bool" where
  "truthy JUndefined = False"
| "truthy JNull = False"
| "truthy (JBool b) = b"
| "truthy (JStr s) = (s \<noteq> [])"
| "truthy (JNum n) = (n \<noteq> 0)"
| "truthy (JObj r) = True"

text \<open>The values that \<^verbatim>\<open>v != null\<close> rejects and \<^verbatim>\<open>v ?? d\<close> replaces.\<close>

fun nullish :: "jsval \<Rightarrow> bool" where
  "nullish JUndefined = True"
| "nullish JNull = True"
| "nullish v = False"

text \<open>\<^verbatim>\<open>a || b\<close> and \<^verbatim>\<open>a ?? b\<close> on values.\<close>

definition js_or :: "jsval \<Rightarrow> jsval \<Rightarrow> jsval" where
  "js_or a b = (if truthy a then a else b)"

definition js_coalesce :: "jsval \<Rightarrow> jsval \<Rightarrow> jsval" where
  "js_coalesce a b = (if nullish a then b else a)"

text \<open>
  String conversion inside a template literal (\<^verbatim>\<open>`${v}`\<close>); an object reference is
  shown as a plain object is.
\<close>

definition digit_char :: "nat \<Rightarrow> char" where
  "digit_char d = char_of (48 + d)"

fun dec_nat :: "nat \<Rightarrow> string" where
  "dec_nat n = (if n < 10 then [digit_char n] else dec_nat (n div 10) @ [digit_char (n mod 10)])"

declare dec_nat.simps [simp del]

definition dec_int :: "int \<Rightarrow> string" where
  "dec_int i = (if i < 0 then CHR ''-'' # dec_nat (nat (- i)) else dec_nat (nat i))"

fun template_str :: "jsval \<Rightarrow> string" where
  "template_str JUndefined = ''undefined''"
| "template_str JNull = ''null''"
| "template_str (JBool b) = (if b then ''true'' else ''false'')"
| "template_str (JStr s) = s"
| "template_str (JNum n) = dec_int n"
| "template_str (JObj r) = ''[object Object]''"

text \<open>Property names of the form \<^verbatim>\<open>aria-...\<close>.\<close>

definition is_aria :: "string \<Rightarrow> bool" where
  "is_aria k = (take 5 k = ''aria-'')"


section \<open>The field context\<close>

text \<open>
  The context value is the object \<^verbatim>\<open>FieldProvider\<close> builds from its own props:
  \<^verbatim>\<open>({ children, className, ...ctx }, ref)\<close>, every remaining prop being an own key
  of \<^verbatim>\<open>ctx\<close>. For each key that \<^verbatim>\<open>interface FieldContextValue\<close> declares the record
  says whether the object has the key (\<open>None\<close>: it has not) and with which value; a
  declared key may be present with the value \<^verbatim>\<open>undefined\<close>, and \<^verbatim>\<open>error\<close> with
  \<^verbatim>\<open>null\<close>. \<open>attributes\<close> holds the other own keys of the object. The JSX type check
  lets through, beyond the declared props, exactly the attributes whose name has a
  hyphen (\<^verbatim>\<open>aria-...\<close>, \<^verbatim>\<open>data-...\<close>), so only those names are read from it.
\<close>

record FieldContextValue =
  name :: "jsval option"
  id' :: "jsval option"
  invalid :: "jsval option"
  disabled :: "jsval option"
  required :: "jsval option"
  error :: "jsval option"
  attributes :: obj

definition hyphenated :: "string \<Rightarrow> bool" where
  "hyphenated k = (CHR ''-'' \<in> set k)"

text \<open>Reading a key of the context, as \<^verbatim>\<open>context.id\<close> does.\<close>

definition opt_val :: "jsval option \<Rightarrow> jsval" where
  "opt_val v = (case v of None \<Rightarrow> JUndefined | Some t \<Rightarrow> t)"

text \<open>
  \<^verbatim>\<open>const { error, ...rest } = context\<close>: the object of every own key of the context
  but \<^verbatim>\<open>error\<close>, each with the value it has there.
\<close>

definition context_rest :: "FieldContextValue \<Rightarrow> obj" where
  "context_rest c = (\<lambda>k.
     if k = ''error'' then None
     else if k = ''name'' then name c
     else if k = ''id'' then id' c
     else if k = ''invalid'' then invalid c
     else if k = ''disabled'' then disabled c
     else if k = ''required'' then required c
     else if hyphenated k then attributes c k
     else None)"

text \<open>
  Optional chaining on the value of \<^verbatim>\<open>useFieldContext()\<close>: \<^verbatim>\<open>context?.error\<close>,
  \<^verbatim>\<open>ctx?.id\<close> and \<^verbatim>\<open>ctx?.required\<close> are \<^verbatim>\<open>undefined\<close> outside any provider.
\<close>

definition context_error :: "FieldContextValue option \<Rightarrow> jsval" where
  "context_error context = (case context of None \<Rightarrow> JUndefined | Some c \<Rightarrow> opt_val (error c))"

definition context_id :: "FieldContextValue option \<Rightarrow> jsval" where
  "context_id context = (case context of None \<Rightarrow> JUndefined | Some c \<Rightarrow> opt_val (id' c))"

definition context_required :: "FieldContextValue option \<Rightarrow> jsval" where
  "context_required context =
     (case context of None \<Rightarrow> JUndefined | Some c \<Rightarrow> opt_val (required c))"


section \<open>The prop resolver\<close>

text \<open>
  \<^verbatim>\<open>getResolvedFieldProps(context, props)\<close>. The object spread
  \<^verbatim>\<open>{...rest, ...props, ...ariaProps}\<close> is map override, the later object winning.
\<close>

definition ariaProps :: "FieldContextValue \<Rightarrow> obj \<Rightarrow> obj" where
  "ariaProps c props =
     (if truthy (opt_val (error c)) \<and> truthy (opt_val (id' c)) then
        (let inv = js_coalesce (get_prop props ''aria-invalid'') (opt_val (invalid c)) in
         [''aria-describedby'' \<mapsto>
            (if \<not> nullish (get_prop props ''aria-describedby'')
             then JStr (template_str (get_prop props ''aria-describedby'') @ '' '' @
                        template_str (opt_val (id' c)) @ ''-error'')
             else JStr (template_str (opt_val (id' c)) @ ''-error'')),
          ''aria-invalid'' \<mapsto>
            (if inv = JStr ''false'' then JBool False else js_coalesce inv (JBool True))])
      else Map.empty)"

definition getResolvedFieldProps :: "FieldContextValue option \<Rightarrow> obj \<Rightarrow> obj" where
  "getResolvedFieldProps context props =
     (case context of
        None \<Rightarrow> props
      | Some c \<Rightarrow> context_rest c ++ props ++ ariaProps c props)"


section \<open>Class names\<close>

text \<open>
  Modelled from the spec: \<^verbatim>\<open>cx\<close> is the imported \<^verbatim>\<open>clsx\<close> package, which is not
  part of the source file. It is "pure string-list joining ... taking a base string and a
  mapping of conditional class to boolean": the arguments are read from left to right, a
  non-empty string (or non-zero number) contributes itself, a mapping contributes its
  keys whose value is true, in order, every other value contributes nothing, and the
  contributions are joined by single spaces.
\<close>

datatype cx_arg = CxVal jsval | CxMap "(string \<times> bool) list"

fun cx_classes :: "cx_arg \<Rightarrow> string list" where
  "cx_classes (CxVal (JStr s)) = (if s = [] then [] else [s])"
| "cx_classes (CxVal (JNum n)) = (if n = 0 then [] else [dec_int n])"
| "cx_classes (CxVal v) = []"
| "cx_classes (CxMap kvs) = map fst (filter snd kvs)"

fun join_space :: "string list \<Rightarrow> string" where
  "join_space [] = []"
| "join_space [s] = s"
| "join_space (s # t # ts) = s @ '' '' @ join_space (t # ts)"

definition cx :: "cx_arg list \<Rightarrow> string" where
  "cx args = join_space (concat (map cx_classes args))"


section \<open>Rendered output\<close>

text \<open>
  What a component returns: a plain value (\<^verbatim>\<open>null\<close> renders nothing) or an element
  with its tag, its \<^verbatim>\<open>ref\<close>, the attributes written on it in the JSX (explicit
  attributes and spread objects, the later one winning), and the children written between
  its tags.
\<close>

datatype node =
    Value jsval
  | Element (tag: string) (ref: jsval) (attrs: obj) (kids: "node list")

text \<open>Object rest: \<^verbatim>\<open>const { a, b, ...others } = ob\<close> leaves \<open>ob\<close> without \<open>a\<close> and \<open>b\<close>.\<close>

definition without :: "obj \<Rightarrow> string set \<Rightarrow> obj" where
  "without ob ks = ob |` (- ks)"


section \<open>The components\<close>

text \<open>
  Each component takes the value \<^verbatim>\<open>useFieldContext()\<close> returns (\<open>None\<close> outside any
  provider), its props and the forwarded ref.
\<close>

definition Field :: "FieldContextValue option \<Rightarrow> obj \<Rightarrow> jsval \<Rightarrow> node" where
  "Field context props r =
     (let resolvedProps = getResolvedFieldProps context props in
      Element ''input'' r
        ([''type'' \<mapsto> JStr ''text''] ++ resolvedProps ++
         [''className'' \<mapsto>
            JStr (cx [CxVal (get_prop props ''className''), CxVal (JStr ''ui--form-field'')])])
        [])"

definition Select :: "FieldContextValue option \<Rightarrow> obj \<Rightarrow> jsval \<Rightarrow> node" where
  "Select context props r =
     (let resolvedProps = getResolvedFieldProps context props in
      Element ''select'' r
        (resolvedProps ++
         [''className'' \<mapsto>
            JStr (cx [CxVal (get_prop props ''className''), CxVal (JStr ''ui--form-field''),
                      CxVal (JStr ''ui--form-field--select'')])])
        [])"


definition Label :: "FieldContextValue option \<Rightarrow> obj \<Rightarrow> jsval \<Rightarrow> node" where
  "Label ctx props r =
     (let className = get_prop props ''className'';
          children = get_prop props ''children'';
          domProps = without props {''className'', ''children''}
      in
      Element ''label'' r
        ([''htmlFor'' \<mapsto> js_or (context_id ctx) (get_prop props ''htmlFor'')] ++ domProps ++
         [''className'' \<mapsto> JStr (cx [CxVal className, CxVal (JStr ''ui--form-label'')])])
        [Value children,
         (if truthy (context_required ctx)
          then Element ''span'' JNull [''className'' \<mapsto> JStr ''sr-only'']
                 [Value (JStr '' (Required)'')]
          else Value JNull)])"

definition FieldError :: "FieldContextValue option \<Rightarrow> obj \<Rightarrow> jsval \<Rightarrow> node" where
  "FieldError context props r =
     (let className = get_prop props ''className'';
          ident = get_prop props ''id'';
          children = get_prop props ''children'';
          domProps = without props {''className'', ''id'', ''children''};
          err = js_or children (context_error context);
          idToUse = (if truthy (context_id context)
                     then JStr (template_str (context_id context) @ ''-error'')
                     else ident)
      in
      if \<not> truthy err then Value JNull
      else
        Element ''div'' r
          ([''className'' \<mapsto> JStr (cx [CxVal className, CxVal (JStr ''ui--form-field-error'')]),
            ''role'' \<mapsto> JStr ''alert'',
            ''id'' \<mapsto> idToUse] ++ domProps)
          [Value err])"


section \<open>The specification's reading of derived values\<close>

text \<open>
  The value of \<^verbatim>\<open>aria-invalid\<close> as the specification words it: the explicit
  \<^verbatim>\<open>aria-invalid\<close> of the props when there is one (a value that is neither
  \<^verbatim>\<open>undefined\<close> nor \<^verbatim>\<open>null\<close>), else the context's \<^verbatim>\<open>invalid\<close>, else \<^verbatim>\<open>true\<close>;
  the string \<^verbatim>\<open>"false"\<close> so obtained becomes the boolean \<^verbatim>\<open>false\<close>, anything else
  is kept.
\<close>

definition spec_aria_invalid :: "jsval \<Rightarrow> jsval \<Rightarrow> jsval" where
  "spec_aria_invalid explicit from_context =
     (let resolved = (if \<not> nullish explicit then explicit
                      else if \<not> nullish from_context then from_context
                      else JBool True)
      in if resolved = JStr ''false'' then JBool False else resolved)"



section \<open>Example inputs\<close>

text \<open>A field group with id \<^verbatim>\<open>f1\<close> and the error message \<^verbatim>\<open>Required\<close>.\<close>

definition required_f1 :: FieldContextValue where
  "required_f1 =
     \<lparr>name = None, id' = Some (JStr ''f1''), invalid = None, disabled = None, required = None,
      error = Some (JStr ''Required''), attributes = Map.empty\<rparr>"

text \<open>The same error in a group that has no id.\<close>

definition required_no_id :: FieldContextValue where
  "required_no_id =
     \<lparr>name = None, id' = None, invalid = None, disabled = None, required = None,
      error = Some (JStr ''Required''), attributes = Map.empty\<rparr>"

text \<open>The group \<^verbatim>\<open>f1\<close> without an error.\<close>

definition valid_f1 :: FieldContextValue where
  "valid_f1 =
     \<lparr>name = None, id' = Some (JStr ''f1''), invalid = None, disabled = None, required = None,
      error = None, attributes = Map.empty\<rparr>"

text \<open>
  The group \<^verbatim>\<open>f1\<close> without an error, whose provider was also given
  \<^verbatim>\<open>aria-describedby="group-hint"\<close>.
\<close>

definition group_hint_f1 :: FieldContextValue where
  "group_hint_f1 =
     \<lparr>name = None, id' = Some (JStr ''f1''), invalid = None, disabled = None, required = None,
      error = None, attributes = [''aria-describedby'' \<mapsto> JStr ''group-hint'']\<rparr>"

text \<open>A context that carries only \<^verbatim>\<open>invalid: true\<close>.\<close>

definition only_invalid :: FieldContextValue where
  "only_invalid =
     \<lparr>name = None, id' = None, invalid = Some (JBool True), disabled = None, required = None,
      error = None, attributes = Map.empty\<rparr>"


section \<open>Facts about the prop resolver\<close>

lemma context_fields_not_aria:
  "\<not> is_aria ''error''" "\<not> is_aria ''name''" "\<not> is_aria ''id''" "\<not> is_aria ''invalid''"
  "\<not> is_aria ''disabled''" "\<not> is_aria ''required''"
  by (simp_all add: is_aria_def)

lemma aria_hyphenated:
  assumes "is_aria k"
  shows "hyphenated k"
proof -
  have "set (take 5 k) \<subseteq> set k"
    by (rule set_take_subset)
  moreover have "CHR ''-'' \<in> set (take 5 k)"
    using assms by (simp add: is_aria_def)
  ultimately show ?thesis
    unfolding hyphenated_def by blast
qed

text \<open>Under an \<^verbatim>\<open>aria-\<close> key the rest of the context has what the provider was given.\<close>

lemma context_rest_aria:
  assumes "is_aria k"
  shows "context_rest c k = attributes c k"
proof -
  have "k \<noteq> ''error''" "k \<noteq> ''name''" "k \<noteq> ''id''" "k \<noteq> ''invalid''" "k \<noteq> ''disabled''"
    "k \<noteq> ''required''"
    using assms context_fields_not_aria by blast+
  then show ?thesis
    using aria_hyphenated [OF assms] by (simp add: context_rest_def)
qed

lemma ariaProps_off:
  "\<not> truthy (opt_val (error c)) \<or> \<not> truthy (opt_val (id' c)) \<Longrightarrow> ariaProps c props = Map.empty"
  by (auto simp: ariaProps_def)

lemma ariaProps_on:
  assumes "truthy (opt_val (error c))" and "id' c = Some (JStr i)" and "i \<noteq> []"
  shows "ariaProps c props =
     [''aria-describedby'' \<mapsto>
        (if \<not> nullish (get_prop props ''aria-describedby'')
         then JStr (template_str (get_prop props ''aria-describedby'') @ '' '' @ i @ ''-error'')
         else JStr (i @ ''-error'')),
      ''aria-invalid'' \<mapsto>
        (let inv = js_coalesce (get_prop props ''aria-invalid'') (opt_val (invalid c))
         in if inv = JStr ''false'' then JBool False else js_coalesce inv (JBool True))]"
  using assms by (simp add: ariaProps_def opt_val_def Let_def)

lemma resolved_describedby:
  assumes "truthy (opt_val (error c))" and "id' c = Some (JStr i)" and "i \<noteq> []"
  shows "getResolvedFieldProps (Some c) props ''aria-describedby'' =
     Some (if \<not> nullish (get_prop props ''aria-describedby'')
           then JStr (template_str (get_prop props ''aria-describedby'') @ '' '' @ i @ ''-error'')
           else JStr (i @ ''-error''))"
  by (simp add: getResolvedFieldProps_def ariaProps_on [OF assms])

text \<open>
  The guard of the derivation is \<^verbatim>\<open>context.error && context.id\<close>: an id that is the
  empty string derives nothing, as an absent id does.
\<close>

lemma ariaProps_empty_id: "id' c = Some (JStr []) \<Longrightarrow> ariaProps c props = Map.empty"
  by (simp add: ariaProps_def opt_val_def)

text \<open>Without a displayed error the result is the context without \<^verbatim>\<open>error\<close>, overlaid by the props.\<close>

lemma resolved_without_error:
  "\<not> truthy (opt_val (error c)) \<Longrightarrow>
     getResolvedFieldProps (Some c) props = context_rest c ++ props"
  using ariaProps_off [of c props] by (simp add: getResolvedFieldProps_def)



text \<open>
  The label's target: the attribute written first is overridden by the spread of
  \<^verbatim>\<open>domProps\<close>, which still holds the caller's \<^verbatim>\<open>htmlFor\<close>.
\<close>

lemma Label_htmlFor:
  "attrs (Label ctx props r) ''htmlFor'' =
     (case props ''htmlFor'' of
        None \<Rightarrow> Some (js_or (context_id ctx) JUndefined)
      | Some v \<Rightarrow> Some v)"
  by (simp add: Label_def Let_def without_def map_add_def restrict_map_def get_prop_def
        split: option.split)


section \<open>The claims\<close>

text \<open>
  C1. The claim: the result starts from the context's fields with both \<^verbatim>\<open>error\<close> and
  \<^verbatim>\<open>invalid\<close> removed and then overlays the props, so that the context's \<^verbatim>\<open>invalid\<close>
  is never a key of the merged result. The function removes \<^verbatim>\<open>error\<close> only: for the
  context \<^verbatim>\<open>{invalid: true}\<close> and empty props the result has the key \<^verbatim>\<open>invalid\<close>
  with the value \<^verbatim>\<open>true\<close>, where the object the claim describes has no such key.
\<close>

theorem getResolvedFieldProps_forwards_invalid:
  "getResolvedFieldProps (Some only_invalid) Map.empty ''invalid'' = Some (JBool True)
   \<and> (without (context_rest only_invalid) {''error'', ''invalid''} ++ Map.empty) ''invalid'' = None"
  by (simp add: getResolvedFieldProps_def ariaProps_def context_rest_def only_invalid_def
        opt_val_def without_def)

text \<open>
  C2. The claim: under a context whose id is set, the label's \<^verbatim>\<open>htmlFor\<close> is the
  context's id even when the caller passes an explicit \<^verbatim>\<open>htmlFor\<close>. With the context
  id \<^verbatim>\<open>f1\<close> and the explicit \<^verbatim>\<open>htmlFor="other"\<close> the rendered label has the target
  \<^verbatim>\<open>other\<close>; without an explicit \<^verbatim>\<open>htmlFor\<close> it has the target \<^verbatim>\<open>f1\<close>.
\<close>

theorem Label_explicit_htmlFor_wins:
  "attrs (Label (Some required_f1) [''htmlFor'' \<mapsto> JStr ''other''] JNull) ''htmlFor''
     = Some (JStr ''other'')
   \<and> attrs (Label (Some required_f1) Map.empty JNull) ''htmlFor'' = Some (JStr ''f1'')"
  by (simp add: Label_htmlFor context_id_def required_f1_def opt_val_def js_or_def)

text \<open>
  C3. For every context whose \<^verbatim>\<open>error\<close> is truthy and whose \<^verbatim>\<open>id\<close> is set, the
  result's
  \<^verbatim>\<open>aria-describedby\<close> is \<open>i\<close> followed by \<^verbatim>\<open>-error\<close> when the props supply no
  \<^verbatim>\<open>aria-describedby\<close>, and the caller's value \<open>d\<close>, a space and that same token when
  the props supply \<open>d\<close>. An id is set when it passes the function's test
  \<^verbatim>\<open>context.id\<close>, that is, when it is a non-empty string \<open>i\<close>; the specification
  uses the word for the components' truthiness tests throughout (the marker of
  \<^verbatim>\<open>Label\<close> is appended "when \<^verbatim>\<open>context.required\<close> is set").
\<close>

theorem aria_describedby_derived:
  assumes "truthy (opt_val (error c))" and "id' c = Some (JStr i)" and "i \<noteq> []"
  shows "(nullish (get_prop props ''aria-describedby'') \<longrightarrow>
            getResolvedFieldProps (Some c) props ''aria-describedby'' = Some (JStr (i @ ''-error'')))
       \<and> (get_prop props ''aria-describedby'' = JStr d \<longrightarrow>
            getResolvedFieldProps (Some c) props ''aria-describedby'' =
              Some (JStr (d @ '' '' @ i @ ''-error'')))"
  by (simp add: resolved_describedby [OF assms])

theorem aria_describedby_derived_witness:
  "truthy (opt_val (error required_f1)) \<and> id' required_f1 = Some (JStr ''f1'')
   \<and> getResolvedFieldProps (Some required_f1) Map.empty ''aria-describedby''
       = Some (JStr ''f1-error'')
   \<and> getResolvedFieldProps (Some required_f1) [''aria-describedby'' \<mapsto> JStr ''hint'']
       ''aria-describedby'' = Some (JStr ''hint f1-error'')"
  using aria_describedby_derived [of required_f1 "''f1''" Map.empty]
    aria_describedby_derived
      [of required_f1 "''f1''" "[''aria-describedby'' \<mapsto> JStr ''hint'']" "''hint''"]
  by (simp add: required_f1_def opt_val_def get_prop_def)

text \<open>
  C4. For every context whose \<^verbatim>\<open>error\<close> is truthy and whose \<^verbatim>\<open>id\<close> is set (a
  non-empty string), the result's \<^verbatim>\<open>aria-invalid\<close> is the value the specification
  describes: the explicit \<^verbatim>\<open>aria-invalid\<close> of the props, else the context's
  \<^verbatim>\<open>invalid\<close>, else \<^verbatim>\<open>true\<close>, with the string \<^verbatim>\<open>"false"\<close> from either source turned
  into the boolean \<^verbatim>\<open>false\<close> and every other value kept.
\<close>

theorem aria_invalid_resolved:
  assumes "truthy (opt_val (error c))" and "id' c = Some (JStr i)" and "i \<noteq> []"
  shows "getResolvedFieldProps (Some c) props ''aria-invalid'' =
           Some (spec_aria_invalid (get_prop props ''aria-invalid'') (opt_val (invalid c)))"
  by (simp add: getResolvedFieldProps_def ariaProps_on [OF assms] spec_aria_invalid_def
        js_coalesce_def Let_def)

theorem aria_invalid_resolved_witness:
  "truthy (opt_val (error (required_f1\<lparr>invalid := Some (JStr ''false'')\<rparr>)))
   \<and> getResolvedFieldProps (Some (required_f1\<lparr>invalid := Some (JStr ''false'')\<rparr>)) Map.empty
       ''aria-invalid'' = Some (JBool False)
   \<and> getResolvedFieldProps (Some required_f1) Map.empty ''aria-invalid'' = Some (JBool True)
   \<and> getResolvedFieldProps (Some required_f1) [''aria-invalid'' \<mapsto> JStr ''grammar'']
       ''aria-invalid'' = Some (JStr ''grammar'')"
  using aria_invalid_resolved
      [of "required_f1\<lparr>invalid := Some (JStr ''false'')\<rparr>" "''f1''" Map.empty]
    aria_invalid_resolved [of required_f1 "''f1''" Map.empty]
    aria_invalid_resolved [of required_f1 "''f1''" "[''aria-invalid'' \<mapsto> JStr ''grammar'']"]
  by (simp add: required_f1_def opt_val_def get_prop_def spec_aria_invalid_def)

text \<open>
  C5, as amended. For every context whose \<^verbatim>\<open>error\<close> is falsy or whose \<^verbatim>\<open>id\<close> is
  unset (absent, or a falsy value such as the empty string, which the function's test
  rejects as well), and for every props object, the function derives no \<^verbatim>\<open>aria-\<close> key
  of its own: under every \<^verbatim>\<open>aria-\<close> key the result has what the props have there, or,
  for a key the props do not have, what the context object itself carries there (an
  attribute written on the provider). When the context carries nothing under the key,
  the result has exactly what the caller passed: the key is present if and only if it is
  in the props, with the caller's value.
\<close>

theorem aria_keys_not_derived:
  assumes "\<not> truthy (opt_val (error c)) \<or> \<not> truthy (opt_val (id' c))" and "is_aria k"
  shows "getResolvedFieldProps (Some c) props k = (attributes c ++ props) k
       \<and> (attributes c k = None \<longrightarrow> getResolvedFieldProps (Some c) props k = props k)"
  using context_rest_aria [OF assms(2), of c]
  by (simp add: getResolvedFieldProps_def ariaProps_off [OF assms(1)] map_add_def
        split: option.split)

theorem aria_keys_not_derived_witness:
  "\<not> truthy (opt_val (error valid_f1)) \<and> is_aria ''aria-describedby''
   \<and> getResolvedFieldProps (Some valid_f1) [''aria-describedby'' \<mapsto> JStr ''hint'']
       ''aria-describedby'' = Some (JStr ''hint'')
   \<and> is_aria ''aria-invalid''
   \<and> getResolvedFieldProps (Some valid_f1) [''aria-describedby'' \<mapsto> JStr ''hint'']
       ''aria-invalid'' = None
   \<and> id' required_no_id = None
   \<and> getResolvedFieldProps (Some required_no_id) [''aria-invalid'' \<mapsto> JStr ''false'']
       ''aria-invalid'' = Some (JStr ''false'')
   \<and> getResolvedFieldProps (Some group_hint_f1) [''aria-describedby'' \<mapsto> JStr ''hint'']
       ''aria-describedby'' = Some (JStr ''hint'')"
  using aria_keys_not_derived
      [of valid_f1 "''aria-describedby''" "[''aria-describedby'' \<mapsto> JStr ''hint'']"]
    aria_keys_not_derived
      [of valid_f1 "''aria-invalid''" "[''aria-describedby'' \<mapsto> JStr ''hint'']"]
    aria_keys_not_derived
      [of required_no_id "''aria-invalid''" "[''aria-invalid'' \<mapsto> JStr ''false'']"]
    aria_keys_not_derived
      [of group_hint_f1 "''aria-describedby''" "[''aria-describedby'' \<mapsto> JStr ''hint'']"]
  by (simp add: valid_f1_def required_no_id_def group_hint_f1_def opt_val_def is_aria_def)

text \<open>
  C5 as stated fails: the provider of the group \<^verbatim>\<open>f1\<close>, which has no error, was
  given \<^verbatim>\<open>aria-describedby="group-hint"\<close>; with empty props the result has the key
  \<^verbatim>\<open>aria-describedby\<close> with that value, a key the caller did not pass.
\<close>

theorem aria_keys_unchanged_counterexample:
  "\<not> truthy (opt_val (error group_hint_f1)) \<and> is_aria ''aria-describedby''
   \<and> (Map.empty :: obj) ''aria-describedby'' = None
   \<and> getResolvedFieldProps (Some group_hint_f1) Map.empty ''aria-describedby''
       = Some (JStr ''group-hint'')"
  by (simp add: getResolvedFieldProps_def ariaProps_def context_rest_def hyphenated_def
        group_hint_f1_def opt_val_def is_aria_def)

text \<open>
  C6. Without a context, \<^verbatim>\<open>getResolvedFieldProps(null, props)\<close> is the props object
  itself, for every props object.
\<close>

theorem getResolvedFieldProps_no_context: "getResolvedFieldProps None props = props"
  by (simp add: getResolvedFieldProps_def)



text \<open>
  C8. \<^verbatim>\<open>FieldError\<close> renders nothing (\<^verbatim>\<open>null\<close>) when the explicit children are absent
  or falsy and the context's error is falsy (or there is no context); it renders the
  explicit children when they are truthy, and the context's error message otherwise.
\<close>

theorem FieldError_message:
  "(\<not> truthy (get_prop props ''children'') \<and> \<not> truthy (context_error context)
      \<longrightarrow> FieldError context props r = Value JNull)
   \<and> (truthy (get_prop props ''children'')
      \<longrightarrow> (\<exists>a. FieldError context props r =
                 Element ''div'' r a [Value (get_prop props ''children'')]))
   \<and> (\<not> truthy (get_prop props ''children'') \<and> truthy (context_error context)
      \<longrightarrow> (\<exists>a. FieldError context props r = Element ''div'' r a [Value (context_error context)]))"
  by (simp add: FieldError_def Let_def js_or_def)

theorem FieldError_message_witness:
  "\<not> truthy (get_prop Map.empty ''children'') \<and> \<not> truthy (context_error (Some valid_f1))
   \<and> FieldError (Some valid_f1) Map.empty JNull = Value JNull
   \<and> FieldError None Map.empty JNull = Value JNull
   \<and> kids (FieldError (Some required_f1) Map.empty JNull) = [Value (JStr ''Required'')]
   \<and> kids (FieldError (Some required_f1) [''children'' \<mapsto> JStr ''Too short''] JNull)
       = [Value (JStr ''Too short'')]"
  using FieldError_message [of Map.empty "Some valid_f1" JNull]
    FieldError_message [of Map.empty None JNull]
    FieldError_message [of Map.empty "Some required_f1" JNull]
    FieldError_message [of "[''children'' \<mapsto> JStr ''Too short'']" "Some required_f1" JNull]
  by (auto simp: get_prop_def context_error_def valid_f1_def required_f1_def opt_val_def)

text \<open>
  C9, as amended. For every \<^verbatim>\<open>FieldError\<close> render that produces output, the rendered
  element carries the role \<^verbatim>\<open>alert\<close> whenever the caller's props have no \<^verbatim>\<open>role\<close> key;
  when the props have one, the element carries the caller's \<^verbatim>\<open>role\<close> instead (the
  props are spread after the \<^verbatim>\<open>role\<close> attribute).
\<close>

theorem FieldError_role_default:
  assumes "FieldError context props r \<noteq> Value JNull"
  shows "(''role'' \<notin> dom props \<longrightarrow>
            attrs (FieldError context props r) ''role'' = Some (JStr ''alert''))
       \<and> (''role'' \<in> dom props \<longrightarrow>
            attrs (FieldError context props r) ''role'' = props ''role'')"
  using assms
  by (auto simp: FieldError_def Let_def without_def map_add_def restrict_map_def domIff
      split: if_splits option.splits)

theorem FieldError_role_default_witness:
  "FieldError (Some required_f1) Map.empty JNull \<noteq> Value JNull
   \<and> ''role'' \<notin> dom (Map.empty :: obj)
   \<and> attrs (FieldError (Some required_f1) Map.empty JNull) ''role'' = Some (JStr ''alert'')"
  using FieldError_role_default [of "Some required_f1" Map.empty JNull]
  by (simp add: FieldError_def Let_def js_or_def get_prop_def context_error_def
        required_f1_def opt_val_def)

text \<open>
  C9 as stated fails: with the props \<^verbatim>\<open>{role: "status"}\<close> under the context with the
  error \<^verbatim>\<open>Required\<close>, \<^verbatim>\<open>FieldError\<close> produces output and the element's role is
  \<^verbatim>\<open>status\<close>, not \<^verbatim>\<open>alert\<close>.
\<close>

theorem FieldError_role_counterexample:
  "FieldError (Some required_f1) [''role'' \<mapsto> JStr ''status''] JNull \<noteq> Value JNull
   \<and> attrs (FieldError (Some required_f1) [''role'' \<mapsto> JStr ''status''] JNull) ''role''
       = Some (JStr ''status'')
   \<and> attrs (FieldError (Some required_f1) [''role'' \<mapsto> JStr ''status''] JNull) ''role''
       \<noteq> Some (JStr ''alert'')"
  by (simp add: FieldError_def Let_def js_or_def get_prop_def context_error_def
        required_f1_def opt_val_def without_def map_add_def restrict_map_def)

text \<open>
  C10. For every context whose \<^verbatim>\<open>error\<close> is truthy and whose \<^verbatim>\<open>id\<close> is set (a
  non-empty string \<open>i\<close>), \<^verbatim>\<open>FieldError\<close> renders, whatever props it is given, an
  element whose \<^verbatim>\<open>id\<close> is \<open>i\<close> followed by \<^verbatim>\<open>-error\<close>, and that same string is what
  \<^verbatim>\<open>getResolvedFieldProps\<close> puts in \<^verbatim>\<open>aria-describedby\<close> for a field under the same
  context: alone when the field's props supply no \<^verbatim>\<open>aria-describedby\<close>, and after the
  caller's value and a space when they do.
\<close>

theorem FieldError_id_is_describedby_token:
  assumes "truthy (opt_val (error c))" and "id' c = Some (JStr i)" and "i \<noteq> []"
  shows "(\<exists>a ks. FieldError (Some c) eprops r = Element ''div'' r a ks
                \<and> a ''id'' = Some (JStr (i @ ''-error'')))
       \<and> getResolvedFieldProps (Some c) props ''aria-describedby'' =
           Some (JStr ((if nullish (get_prop props ''aria-describedby'') then []
                        else template_str (get_prop props ''aria-describedby'') @ '' '')
                       @ i @ ''-error''))"
proof -
  have "truthy (js_or (get_prop eprops ''children'') (context_error (Some c)))"
    using assms(1) by (simp add: js_or_def context_error_def)
  then have "\<exists>a ks. FieldError (Some c) eprops r = Element ''div'' r a ks
                \<and> a ''id'' = Some (JStr (i @ ''-error''))"
    using assms(2,3)
    by (simp add: FieldError_def Let_def without_def map_add_def restrict_map_def
          context_id_def opt_val_def)
  moreover have "getResolvedFieldProps (Some c) props ''aria-describedby'' =
           Some (JStr ((if nullish (get_prop props ''aria-describedby'') then []
                        else template_str (get_prop props ''aria-describedby'') @ '' '')
                       @ i @ ''-error''))"
    by (simp add: resolved_describedby [OF assms])
  ultimately show ?thesis by simp
qed

theorem FieldError_id_is_describedby_token_witness:
  "truthy (opt_val (error required_f1)) \<and> id' required_f1 = Some (JStr ''f1'')
   \<and> attrs (FieldError (Some required_f1) [''id'' \<mapsto> JStr ''mine''] JNull) ''id''
       = Some (JStr ''f1-error'')
   \<and> getResolvedFieldProps (Some required_f1) [''aria-describedby'' \<mapsto> JStr ''hint'']
       ''aria-describedby'' = Some (JStr ''hint f1-error'')"
  using FieldError_id_is_describedby_token
      [of required_f1 "''f1''" "[''id'' \<mapsto> JStr ''mine'']" JNull
          "[''aria-describedby'' \<mapsto> JStr ''hint'']"]
  by (auto simp: required_f1_def opt_val_def get_prop_def)

end
